theory Spec2Isabelle
  imports Complex_Main
begin

section \<open>Medal geometry pipeline: shapes, motifs, constraints, composer\<close>

text \<open>
  A shallow embedding of \<^verbatim>\<open>shapes.py\<close>, \<^verbatim>\<open>motifs.py\<close>, \<^verbatim>\<open>constraints.py\<close> and
  \<^verbatim>\<open>composer.py\<close>.

  Numbers: a Python float argument is a finite binary64 number, given as the real it
  denotes (\<^typ>\<open>real\<close>); infinite and NaN arguments are outside the model. Coordinates and
  measurements are modelled as the reals they approximate. Where a float decides how the
  program continues (the division and the truncation in \<^verbatim>\<open>create_finish_line\<close>, the
  \<^verbatim>\<open>break\<close> test in \<^verbatim>\<open>create_waves\<close>) the operations are computed in binary64, rounded to
  nearest with ties to even, with the exceptions that Python raises on finite operands:
  \<^verbatim>\<open>ZeroDivisionError\<close> from a zero divisor and \<^verbatim>\<open>OverflowError\<close> from \<^verbatim>\<open>int\<close> of an infinite
  quotient.

  Geometry: the polygon type and every operation on it come from the external library
  \<^verbatim>\<open>shapely\<close>, which is not part of the repository. The polygon type is a type variable
  and the library is a record of operations passed to every function that uses it.
\<close>

subsection \<open>Values shared by all modules\<close>

type_synonym point = "real \<times> real"

type_synonym polyline = "point list"

datatype py_error = ZeroDivisionError | OverflowError

text \<open>
  Binary64 rounding of a real: the exponent of the last place is 52 below the binade of
  the number, and not below that of the subnormals; the significand is rounded to the
  nearest integer, ties to even. A result of magnitude \<open>2 ^ 1024\<close> or more is an overflow.
\<close>

definition round_half_even :: "real \<Rightarrow> int" where
  "round_half_even x =
     (let f = \<lfloor>x\<rfloor>;
          d = x - of_int f
      in if d < 1 / 2 then f
         else if 1 / 2 < d then f + 1
         else if even f then f else f + 1)"

definition binade :: "real \<Rightarrow> int" where
  "binade x = \<lfloor>log 2 \<bar>x\<bar>\<rfloor>"

definition double_round :: "real \<Rightarrow> real" where
  "double_round x =
     (if x = 0 then 0
      else let e = max (binade x) (- 1022) - 52
           in of_int (round_half_even (x / 2 powi e)) * 2 powi e)"

definition double_overflow :: "real \<Rightarrow> bool" where
  "double_overflow x = (2 ^ 1024 \<le> \<bar>double_round x\<bar>)"

text \<open>The value of a float operation on finite operands: a finite double or an infinity.\<close>

datatype py_float = Finite real | Infinite

text \<open>Python's \<^verbatim>\<open>a / b\<close> on finite floats: it raises on a zero divisor and overflows to an
  infinity.\<close>

definition float_div :: "real \<Rightarrow> real \<Rightarrow> py_error + py_float" where
  "float_div a b =
     (if b = 0 then Inl ZeroDivisionError
      else if double_overflow (a / b) then Inr Infinite
      else Inr (Finite (double_round (a / b))))"

text \<open>Python's \<^verbatim>\<open>int(x)\<close> on a float: truncation towards zero; it raises on an infinity.\<close>

definition py_int :: "py_float \<Rightarrow> py_error + int" where
  "py_int x =
     (case x of
        Infinite \<Rightarrow> Inl OverflowError
      | Finite v \<Rightarrow> Inr (if 0 \<le> v then \<lfloor>v\<rfloor> else \<lceil>v\<rceil>))"

text \<open>Sum, product and quotient of floats where no overflow and no zero divisor can occur.\<close>

definition float_add :: "real \<Rightarrow> real \<Rightarrow> real" where
  "float_add a b = double_round (a + b)"

definition float_mul :: "real \<Rightarrow> real \<Rightarrow> real" where
  "float_mul a b = double_round (a * b)"

definition float_quot :: "real \<Rightarrow> real \<Rightarrow> real" where
  "float_quot a b = double_round (a / b)"

text \<open>The operations of the geometry library that the four modules call.\<close>

record 'p shapely =
  Polygon :: "point list \<Rightarrow> 'p"
    \<comment> \<open>\<^verbatim>\<open>Polygon(points)\<close>\<close>
  box :: "real \<Rightarrow> real \<Rightarrow> real \<Rightarrow> real \<Rightarrow> 'p"
    \<comment> \<open>\<^verbatim>\<open>box(minx, miny, maxx, maxy)\<close>\<close>
  point_buffer :: "point \<Rightarrow> real \<Rightarrow> nat \<Rightarrow> 'p"
    \<comment> \<open>\<^verbatim>\<open>Point(x, y).buffer(distance, resolution)\<close>; the library's default resolution is 16\<close>
  buffer :: "'p \<Rightarrow> real \<Rightarrow> 'p"
    \<comment> \<open>\<^verbatim>\<open>polygon.buffer(distance)\<close> with round joins (\<^verbatim>\<open>join_style=1\<close>, the default)\<close>
  rotate_origin :: "'p \<Rightarrow> real \<Rightarrow> 'p"
    \<comment> \<open>\<^verbatim>\<open>rotate(polygon, angle, origin=(0, 0))\<close>, angle in degrees\<close>
  bounds :: "'p \<Rightarrow> real \<times> real \<times> real \<times> real"
    \<comment> \<open>\<^verbatim>\<open>polygon.bounds\<close>: (minx, miny, maxx, maxy)\<close>
  area :: "'p \<Rightarrow> real"
  is_valid :: "'p \<Rightarrow> bool"
  is_empty :: "'p \<Rightarrow> bool"
  explain_validity :: "'p \<Rightarrow> string"
  contains :: "'p \<Rightarrow> 'p \<Rightarrow> bool"
    \<comment> \<open>\<^verbatim>\<open>a.contains(b)\<close>\<close>
  exterior_distance :: "'p \<Rightarrow> point \<Rightarrow> real"
    \<comment> \<open>\<^verbatim>\<open>polygon.exterior.distance(point)\<close>\<close>
  exterior_coords :: "'p \<Rightarrow> point list"
    \<comment> \<open>\<^verbatim>\<open>list(polygon.exterior.coords)\<close>\<close>

subsection \<open>shapes.py\<close>

datatype MedalShape =
  CIRCLE | HEXAGON | OCTAGON | SHIELD | STAR | DROP
  | RECTANGLE | ROUNDED_RECTANGLE | GEAR | LEAF

text \<open>
  \<^verbatim>\<open>ShapeParams\<close> after \<^verbatim>\<open>__post_init__\<close>: the height is a number. The constructor
  \<open>ShapeParams\<close> below takes the optional height and fills it in.
\<close>

record shape_params =
  width :: real
  height :: real
  rotation :: real
  corner_radius :: real

definition ShapeParams :: "real \<Rightarrow> real option \<Rightarrow> real \<Rightarrow> real \<Rightarrow> shape_params" where
  "ShapeParams w h rot cr =
     \<lparr>width = w, height = (case h of None \<Rightarrow> w | Some h' \<Rightarrow> h'),
      rotation = rot, corner_radius = cr\<rparr>"

definition ShapeParams_default :: shape_params where
  "ShapeParams_default = ShapeParams 70 None 0 0"

definition create_circle :: "'p shapely \<Rightarrow> real \<Rightarrow> 'p" where
  "create_circle G diameter = point_buffer G (0, 0) (diameter / 2) 64"

definition regular_polygon_points :: "nat \<Rightarrow> real \<Rightarrow> point list" where
  "regular_polygon_points n_sides diameter =
     (let radius = diameter / 2;
          angles = map (\<lambda>i. 2 * pi * real i / real n_sides) [0..<n_sides]
      in map (\<lambda>a. (radius * cos a, radius * sin a)) angles)"

definition create_regular_polygon :: "'p shapely \<Rightarrow> nat \<Rightarrow> real \<Rightarrow> real \<Rightarrow> 'p" where
  "create_regular_polygon G n_sides diameter rot =
     (let polygon = Polygon G (regular_polygon_points n_sides diameter)
      in if rot \<noteq> 0 then rotate_origin G polygon rot else polygon)"

definition create_hexagon :: "'p shapely \<Rightarrow> real \<Rightarrow> bool \<Rightarrow> 'p" where
  "create_hexagon G diameter flat_top =
     create_regular_polygon G 6 diameter (if flat_top then 0 else 30)"

definition create_octagon :: "'p shapely \<Rightarrow> real \<Rightarrow> 'p" where
  "create_octagon G diameter = create_regular_polygon G 8 diameter 22.5"

definition star_points :: "nat \<Rightarrow> real \<Rightarrow> real \<Rightarrow> point list" where
  "star_points n_points outer_diameter inner_ratio =
     (let outer_radius = outer_diameter / 2;
          inner_radius = outer_radius * inner_ratio
      in map (\<lambda>i.
            let angle = pi / 2 + (pi * real i / real n_points);
                radius = (if i mod 2 = 0 then outer_radius else inner_radius)
            in (radius * cos angle, radius * sin angle))
          [0..<n_points * 2])"

definition create_star :: "'p shapely \<Rightarrow> nat \<Rightarrow> real \<Rightarrow> real \<Rightarrow> 'p" where
  "create_star G n_points outer_diameter inner_ratio =
     Polygon G (star_points n_points outer_diameter inner_ratio)"

text \<open>The vertex list \<^verbatim>\<open>points\<close> that \<^verbatim>\<open>create_shield\<close> builds (\<^verbatim>\<open>n_curve_points = 16\<close>).\<close>

definition shield_points :: "real \<Rightarrow> real \<Rightarrow> point list" where
  "shield_points w h =
     (let top_height = h * 0.35;
          curve_height = h * 0.65;
          n_curve_points = 16::nat
      in [(- w / 2, h / 2), (w / 2, h / 2), (w / 2, h / 2 - top_height)]
         @ map (\<lambda>i. let t = real i / real n_curve_points
                     in (w / 2 * (1 - t) * (1 - t * 0.3),
                         (h / 2 - top_height) - curve_height * t))
               [1..<n_curve_points]
         @ [(0, - h / 2)]
         @ map (\<lambda>i. let t = real i / real n_curve_points
                     in (- w / 2 * (1 - t) * (1 - t * 0.3),
                         (h / 2 - top_height) - curve_height * t))
               (rev [1..<n_curve_points])
         @ [(- w / 2, h / 2 - top_height)])"

definition create_shield :: "'p shapely \<Rightarrow> real \<Rightarrow> real \<Rightarrow> 'p" where
  "create_shield G w h = Polygon G (shield_points w h)"

text \<open>
  \<^verbatim>\<open>create_drop\<close>, \<^verbatim>\<open>n_points = 32\<close>: \<^verbatim>\<open>n_points // 2\<close> is 16 and \<^verbatim>\<open>n_points // 4\<close> is 8;
  \<^verbatim>\<open>t**1.5\<close> is the real power.
\<close>

definition drop_points :: "real \<Rightarrow> real \<Rightarrow> point list" where
  "drop_points w h =
     (let n_points = 32::nat;
          circle_radius = w / 2;
          circle_center_y = - h / 2 + circle_radius;
          tip_y = h / 2
      in map (\<lambda>i. let angle = pi + (pi * real i / real (n_points div 2))
                  in (circle_radius * cos angle,
                      circle_center_y + circle_radius * sin angle))
             [0..<n_points div 2 + 1]
         @ map (\<lambda>i. let t = real i / real (n_points div 4)
                     in (circle_radius * (1 - t powr 1.5),
                         circle_center_y + circle_radius
                           + (tip_y - circle_center_y - circle_radius) * t))
               [1..<n_points div 4]
         @ [(0, tip_y)]
         @ map (\<lambda>i. let t = real i / real (n_points div 4)
                     in (- circle_radius * (1 - t powr 1.5),
                         circle_center_y + circle_radius
                           + (tip_y - circle_center_y - circle_radius) * t))
               (rev [1..<n_points div 4]))"

definition create_drop :: "'p shapely \<Rightarrow> real \<Rightarrow> real \<Rightarrow> 'p" where
  "create_drop G w h = Polygon G (drop_points w h)"

definition create_rounded_rectangle :: "'p shapely \<Rightarrow> real \<Rightarrow> real \<Rightarrow> real \<Rightarrow> 'p" where
  "create_rounded_rectangle G w h cr =
     (let rect = box G (- w / 2 + cr) (- h / 2 + cr) (w / 2 - cr) (h / 2 - cr)
      in buffer G rect cr)"

text \<open>
  \<^verbatim>\<open>create_gear\<close> as \<^verbatim>\<open>get_shape\<close> calls it: \<^verbatim>\<open>n_teeth\<close> and \<^verbatim>\<open>tooth_depth\<close> keep their
  defaults 12 and 5.0.
\<close>

definition gear_points :: "real \<Rightarrow> point list" where
  "gear_points outer_diameter =
     (let n_teeth = 12::nat;
          tooth_depth = 5;
          outer_radius = outer_diameter / 2;
          inner_radius = outer_radius - tooth_depth;
          tooth_angle = 2 * pi / real n_teeth
      in concat (map (\<lambda>i.
            let base_angle = real i * tooth_angle - pi / 2;
                a1 = base_angle;
                a2 = base_angle + tooth_angle * 0.2;
                a3 = base_angle + tooth_angle * 0.25;
                a4 = base_angle + tooth_angle * 0.75;
                a5 = base_angle + tooth_angle * 0.8
            in [(inner_radius * cos a1, inner_radius * sin a1),
                (inner_radius * cos a2, inner_radius * sin a2),
                (outer_radius * cos a3, outer_radius * sin a3),
                (outer_radius * cos a4, outer_radius * sin a4),
                (inner_radius * cos a5, inner_radius * sin a5)])
          [0..<n_teeth]))"

definition create_gear :: "'p shapely \<Rightarrow> real \<Rightarrow> 'p" where
  "create_gear G outer_diameter = Polygon G (gear_points outer_diameter)"

definition leaf_points :: "real \<Rightarrow> real \<Rightarrow> point list" where
  "leaf_points w h =
     (let n_points = 24::nat
      in [(0, - h / 2)]
         @ map (\<lambda>i. let t = real i / real n_points
                     in (- w / 2 * sin (t * pi) * (1 - t * 0.3), - h / 2 + h * t))
               [1..<n_points]
         @ [(0, h / 2)]
         @ map (\<lambda>i. let t = real i / real n_points
                     in (w / 2 * sin (t * pi) * (1 - t * 0.3), - h / 2 + h * t))
               (rev [1..<n_points]))"

definition create_leaf :: "'p shapely \<Rightarrow> real \<Rightarrow> real \<Rightarrow> 'p" where
  "create_leaf G w h = Polygon G (leaf_points w h)"

text \<open>Python's \<^verbatim>\<open>x or d\<close> on a float: \<^verbatim>\<open>d\<close> when \<^verbatim>\<open>x\<close> is zero, else \<^verbatim>\<open>x\<close>.\<close>

definition float_or :: "real \<Rightarrow> real \<Rightarrow> real" where
  "float_or x d = (if x = 0 then d else x)"

text \<open>The dispatch table of \<^verbatim>\<open>get_shape\<close>, one entry per member of the enumeration.\<close>

fun shape_creators :: "'p shapely \<Rightarrow> shape_params \<Rightarrow> MedalShape \<Rightarrow> 'p" where
  "shape_creators G params CIRCLE = create_circle G (width params)"
| "shape_creators G params HEXAGON = create_hexagon G (width params) True"
| "shape_creators G params OCTAGON = create_octagon G (width params)"
| "shape_creators G params STAR = create_star G 5 (width params) 0.4"
| "shape_creators G params SHIELD = create_shield G (width params) (height params)"
| "shape_creators G params DROP = create_drop G (width params) (height params)"
| "shape_creators G params RECTANGLE =
     create_rounded_rectangle G (width params) (height params)
       (float_or (corner_radius params) 5)"
| "shape_creators G params ROUNDED_RECTANGLE =
     create_rounded_rectangle G (width params) (height params)
       (float_or (corner_radius params) 8)"
| "shape_creators G params GEAR = create_gear G (width params)"
| "shape_creators G params LEAF = create_leaf G (width params) (height params)"

definition get_shape :: "'p shapely \<Rightarrow> MedalShape \<Rightarrow> shape_params option \<Rightarrow> 'p" where
  "get_shape G shape_type params_opt =
     (let params = (case params_opt of None \<Rightarrow> ShapeParams_default | Some p \<Rightarrow> p);
          polygon = shape_creators G params shape_type
      in if rotation params \<noteq> 0 then rotate_origin G polygon (rotation params)
         else polygon)"

definition calculate_ribbon_hole_position :: "'p shapely \<Rightarrow> 'p \<Rightarrow> real \<Rightarrow> point" where
  "calculate_ribbon_hole_position G polygon margin =
     (case bounds G polygon of (minx, miny, maxx, maxy) \<Rightarrow>
        let top_y = maxy;
            center_x = (minx + maxx) / 2;
            hole_y = top_y - margin
        in (center_x, hole_y))"

subsection \<open>motifs.py\<close>

datatype MotifType =
  MOUNTAINS | WAVES | LAUREL | RAYS | CHEVRONS | TREES | RUNNING_TRACK | FINISH_LINE

record motif_params =
  m_width :: real
  m_height :: real
  detail_level :: int
  offset_x :: real
  offset_y :: real

definition MotifParams_default :: motif_params where
  "MotifParams_default =
     \<lparr>m_width = 60, m_height = 20, detail_level = 3, offset_x = 0, offset_y = 0\<rparr>"

text \<open>
  The generators as \<^verbatim>\<open>get_motif\<close> calls them, with width and height only: the count and
  style parameters keep their defaults (\<^verbatim>\<open>n_peaks = 3\<close>, \<^verbatim>\<open>style = "simple"\<close>,
  \<^verbatim>\<open>n_waves = 3\<close>, \<^verbatim>\<open>n_rows = 2\<close>, \<^verbatim>\<open>n_leaves = 6\<close>, \<^verbatim>\<open>n_chevrons = 3\<close>, \<^verbatim>\<open>n_trees = 3\<close>,
  \<^verbatim>\<open>n_lanes = 3\<close>, \<^verbatim>\<open>n_squares = 6\<close>), bound here by \<open>let\<close>.
\<close>

definition create_mountains :: "real \<Rightarrow> real \<Rightarrow> polyline list" where
  "create_mountains w h =
     (let n_peaks = 3::nat;
          peak_width = w / real n_peaks;
          peak_heights = [0.8, 1, 0.6];
          points = [(- w / 2, 0)]
            @ concat (map (\<lambda>i.
                let base_x = - w / 2 + real i * peak_width;
                    peak_x = base_x + peak_width / 2;
                    peak_h = h * (peak_heights ! (i mod length peak_heights))
                in [(peak_x, peak_h), (base_x + peak_width, 0)])
              [0..<n_peaks])
      in [points])"

text \<open>
  The inner loop of \<^verbatim>\<open>create_waves\<close> stops (\<^verbatim>\<open>break\<close>) at the first abscissa beyond the
  right edge. The abscissa \<^verbatim>\<open>x = -width/2 + t * wave_width\<close> and the bound \<^verbatim>\<open>width/2\<close> of
  that test are the binary64 values; the ordinate is modelled as a real.
\<close>

definition wave_x :: "real \<Rightarrow> nat \<Rightarrow> real" where
  "wave_x w i =
     (let n_waves = 3::nat;
          wave_width = float_quot w (real n_waves);
          t = float_quot (real i) 10
      in float_add (float_quot (- w) 2) (float_mul t wave_width))"

definition create_waves :: "real \<Rightarrow> real \<Rightarrow> polyline list" where
  "create_waves w h =
     (let n_waves = 3::nat;
          n_rows = 2::nat;
          row_spacing = h * 0.6
      in map (\<lambda>row.
            let base_y = - real row * row_spacing
            in map (\<lambda>i. let t = real i / 10
                        in (wave_x w i, base_y + h * 0.5 * sin (t * 2 * pi)))
                 (takeWhile (\<lambda>i. \<not> (wave_x w i > float_quot w 2))
                    [0..<n_waves * 10 + 1]))
          [0..<n_rows])"

definition create_laurel :: "real \<Rightarrow> real \<Rightarrow> polyline list" where
  "create_laurel w h =
     (let n_leaves = 6::nat
      in concat (map (\<lambda>side.
            let stem = map (\<lambda>i. let t = real i / 19
                                in (side * (w / 2 - 5) * (1 - t * 0.3), - h / 2 + h * t))
                         [0..<20]
            in stem # map (\<lambda>i.
                 let t = (real i + 1) / (real n_leaves + 1);
                     base_x = side * (w / 2 - 5) * (1 - t * 0.3);
                     base_y = - h / 2 + h * t;
                     leaf_length = 8;
                     leaf_width = 3
                 in map (\<lambda>j. let lt = real j / 9
                             in (base_x + side * leaf_length * lt * (1 - t * 0.5),
                                 base_y + leaf_width * sin (lt * pi) * (1 - t * 0.3)))
                      [0..<10])
               [0..<n_leaves])
          [-1, 1]))"

definition create_rays :: "point \<Rightarrow> real \<Rightarrow> real \<Rightarrow> nat \<Rightarrow> polyline list" where
  "create_rays center inner_radius outer_radius n_rays =
     (case center of (cx, cy) \<Rightarrow>
        map (\<lambda>i. let angle = 2 * pi * real i / real n_rays - pi / 2;
                     x1 = cx + inner_radius * cos angle;
                     y1 = cy + inner_radius * sin angle;
                     x2 = cx + outer_radius * cos angle;
                     y2 = cy + outer_radius * sin angle
                 in [(x1, y1), (x2, y2)])
          [0..<n_rays])"

text \<open>\<^verbatim>\<open>create_geometric_border\<close>: the only style that draws anything is \<^verbatim>\<open>"line"\<close>.\<close>

definition create_geometric_border :: "'p shapely \<Rightarrow> 'p \<Rightarrow> real \<Rightarrow> string \<Rightarrow> polyline list" where
  "create_geometric_border G polygon offset style =
     (let inner = buffer G polygon (- offset)
      in if is_empty G inner then []
         else if style = ''line'' then [exterior_coords G inner]
         else [])"

definition create_chevrons :: "real \<Rightarrow> real \<Rightarrow> polyline list" where
  "create_chevrons w h =
     (let n_chevrons = 3::nat;
          spacing = h / (real n_chevrons + 1)
      in map (\<lambda>i. let y_base = h / 2 - (real i + 1) * spacing
                  in [(- w / 2, y_base + spacing * 0.3), (0, y_base),
                      (w / 2, y_base + spacing * 0.3)])
           [0..<n_chevrons])"

definition create_trees :: "real \<Rightarrow> real \<Rightarrow> polyline list" where
  "create_trees w h =
     (let n_trees = 3::nat;
          tree_spacing = w / real n_trees;
          heights = [0.7, 1, 0.8]
      in concat (map (\<lambda>i.
            let tree_height = h * (heights ! (i mod length heights));
                center_x = - w / 2 + tree_spacing * (real i + 0.5);
                tree_width = tree_spacing * 0.6;
                tree = [(center_x - tree_width / 2, 0), (center_x, tree_height),
                        (center_x + tree_width / 2, 0), (center_x - tree_width / 2, 0)];
                trunk_width = tree_width * 0.15;
                trunk = [(center_x - trunk_width, 0), (center_x - trunk_width, - h * 0.1),
                         (center_x + trunk_width, - h * 0.1), (center_x + trunk_width, 0)]
            in [tree, trunk])
          [0..<n_trees]))"

definition create_running_track :: "real \<Rightarrow> polyline list" where
  "create_running_track w =
     (let n_lanes = 3::nat;
          lane_spacing = 4
      in map (\<lambda>i. let y = (real i - real n_lanes / 2 + 0.5) * lane_spacing
                  in [(- w / 2, y), (w / 2, y)])
           [0..<n_lanes])"

text \<open>
  \<^verbatim>\<open>create_finish_line\<close>: \<^verbatim>\<open>square_size = width / n_squares\<close> divides by the literal 6 and
  cannot overflow; it is zero when the width is zero or so small that the quotient
  underflows. \<^verbatim>\<open>int(height / square_size)\<close> then raises \<^verbatim>\<open>ZeroDivisionError\<close> on a zero
  square size and \<^verbatim>\<open>OverflowError\<close> when the quotient overflows. The number of rows is
  taken from the rounded quotient; the corners of the squares are modelled as reals.
\<close>

definition create_finish_line :: "real \<Rightarrow> real \<Rightarrow> py_error + polyline list" where
  "create_finish_line w h =
     (let n_squares = 6::nat;
          square_size = float_quot w (real n_squares)
      in case float_div h square_size of
           Inl e \<Rightarrow> Inl e
         | Inr q \<Rightarrow>
             (case py_int q of
                Inl e \<Rightarrow> Inl e
              | Inr n \<Rightarrow>
                  let n_rows = nat n
                  in Inr (concat (map (\<lambda>row.
                        map (\<lambda>col.
                            let x = - w / 2 + real col * square_size;
                                y = - h / 2 + real row * square_size
                            in [(x, y), (x + square_size, y),
                                (x + square_size, y + square_size),
                                (x, y + square_size), (x, y)])
                          (filter (\<lambda>col. (row + col) mod 2 = 0) [0..<n_squares]))
                      [0..<n_rows]))))"

text \<open>
  The keyword arguments of \<^verbatim>\<open>get_motif\<close> reach \<^verbatim>\<open>create_rays\<close> only; an absent key keeps
  the default of \<^verbatim>\<open>create_rays\<close>. The composer passes none.
\<close>

record rays_kwargs =
  kw_center :: "point option"
  kw_inner_radius :: "real option"
  kw_outer_radius :: "real option"
  kw_n_rays :: "nat option"

definition no_kwargs :: rays_kwargs where
  "no_kwargs = \<lparr>kw_center = None, kw_inner_radius = None, kw_outer_radius = None,
                 kw_n_rays = None\<rparr>"

definition create_rays_kw :: "rays_kwargs \<Rightarrow> polyline list" where
  "create_rays_kw kw =
     create_rays (case kw_center kw of None \<Rightarrow> (0, 0) | Some c \<Rightarrow> c)
       (case kw_inner_radius kw of None \<Rightarrow> 15 | Some r \<Rightarrow> r)
       (case kw_outer_radius kw of None \<Rightarrow> 30 | Some r \<Rightarrow> r)
       (case kw_n_rays kw of None \<Rightarrow> 12 | Some n \<Rightarrow> n)"

fun motif_creators :: "motif_params \<Rightarrow> rays_kwargs \<Rightarrow> MotifType \<Rightarrow> py_error + polyline list"
where
  "motif_creators params kw MOUNTAINS = Inr (create_mountains (m_width params) (m_height params))"
| "motif_creators params kw WAVES = Inr (create_waves (m_width params) (m_height params))"
| "motif_creators params kw LAUREL = Inr (create_laurel (m_width params) (m_height params))"
| "motif_creators params kw RAYS = Inr (create_rays_kw kw)"
| "motif_creators params kw CHEVRONS = Inr (create_chevrons (m_width params) (m_height params))"
| "motif_creators params kw TREES = Inr (create_trees (m_width params) (m_height params))"
| "motif_creators params kw RUNNING_TRACK = Inr (create_running_track (m_width params))"
| "motif_creators params kw FINISH_LINE = create_finish_line (m_width params) (m_height params)"

definition translate_lines :: "real \<Rightarrow> real \<Rightarrow> polyline list \<Rightarrow> polyline list" where
  "translate_lines ox oy lines = map (map (\<lambda>(x, y). (x + ox, y + oy))) lines"

definition get_motif ::
  "MotifType \<Rightarrow> motif_params option \<Rightarrow> rays_kwargs \<Rightarrow> py_error + polyline list" where
  "get_motif motif_type params_opt kw =
     (let params = (case params_opt of None \<Rightarrow> MotifParams_default | Some p \<Rightarrow> p)
      in case motif_creators params kw motif_type of
           Inl e \<Rightarrow> Inl e
         | Inr lines \<Rightarrow>
             Inr (if offset_x params \<noteq> 0 \<or> offset_y params \<noteq> 0
                  then translate_lines (offset_x params) (offset_y params) lines
                  else lines))"

subsection \<open>constraints.py\<close>

record TrotecConstraints =
  max_width :: real
  max_height :: real
  wood_thicknesses :: "real list"
  min_line_width :: real
  min_detail_size :: real
  min_bridge_width :: real
  kerf :: real
  min_medal_diameter :: real
  max_medal_diameter :: real
  safe_margin :: real
  ribbon_hole_diameter :: real
  ribbon_hole_min_margin :: real
  min_text_height :: real
  min_engraving_width :: real

definition DEFAULT_CONSTRAINTS :: TrotecConstraints where
  "DEFAULT_CONSTRAINTS =
     \<lparr>max_width = 600, max_height = 300, wood_thicknesses = [3, 4, 5, 6],
      min_line_width = 0.5, min_detail_size = 1, min_bridge_width = 2, kerf = 0.15,
      min_medal_diameter = 40, max_medal_diameter = 120, safe_margin = 2,
      ribbon_hole_diameter = 4, ribbon_hole_min_margin = 5,
      min_text_height = 3, min_engraving_width = 0.3\<rparr>"

text \<open>
  The messages of the validator. Each constructor stands for one format string of the
  source and carries the values that the string interpolates, in the order of the text.
\<close>

datatype message =
    InvalidGeometry string     \<comment> \<open>\<^verbatim>\<open>Geometrie invalide: ...\<close>\<close>
  | WidthTooLarge real real    \<comment> \<open>\<^verbatim>\<open>Largeur w > max m\<close>\<close>
  | HeightTooLarge real real   \<comment> \<open>\<^verbatim>\<open>Hauteur h > max m\<close>\<close>
  | MedalTooSmall real real    \<comment> \<open>\<^verbatim>\<open>Medaille trop petite: d < min m\<close>\<close>
  | MedalTooLarge real real    \<comment> \<open>\<^verbatim>\<open>Medaille trop grande: d > max m\<close>\<close>
  | ShapeTooThin real          \<comment> \<open>\<^verbatim>\<open>Forme trop fine: epaisseur < b\<close>\<close>
  | FragileZones               \<comment> \<open>\<^verbatim>\<open>Certaines zones peuvent etre fragiles apres decoupe\<close>\<close>
  | SmallArea real             \<comment> \<open>\<^verbatim>\<open>Surface tres petite: a\<close>\<close>
  | HoleOutside                \<comment> \<open>\<^verbatim>\<open>Le trou pour ruban sort de la medaille\<close>\<close>
  | HoleTooClose real real     \<comment> \<open>\<^verbatim>\<open>Trou trop pres du bord: d < min m\<close>\<close>
  | TextTooSmall real real     \<comment> \<open>\<^verbatim>\<open>Texte trop petit: h < min m\<close>\<close>
  | TextSmall real             \<comment> \<open>\<^verbatim>\<open>Texte petit (h), lisibilite reduite\<close>\<close>

record ValidationResult =
  vr_is_valid :: bool
  errors :: "message list"
  warnings :: "message list"

definition validate_medal_shape ::
  "'p shapely \<Rightarrow> 'p \<Rightarrow> TrotecConstraints \<Rightarrow> ValidationResult" where
  "validate_medal_shape G polygon constraints =
     (if \<not> is_valid G polygon
      then \<lparr>vr_is_valid = False,
            errors = [InvalidGeometry (explain_validity G polygon)],
            warnings = []\<rparr>
      else case bounds G polygon of (minx, miny, maxx, maxy) \<Rightarrow>
        let w = maxx - minx;
            h = maxy - miny;
            e1 = (if w > max_width constraints
                  then [WidthTooLarge w (max_width constraints)] else []);
            e2 = (if h > max_height constraints
                  then [HeightTooLarge h (max_height constraints)] else []);
            max_dim = max w h;
            e3 = (if max_dim < min_medal_diameter constraints
                  then [MedalTooSmall max_dim (min_medal_diameter constraints)] else []);
            e4 = (if max_dim > max_medal_diameter constraints
                  then [MedalTooLarge max_dim (max_medal_diameter constraints)] else []);
            min_radius = min_bridge_width constraints / 2;
            eroded = buffer G polygon (- min_radius);
            e5 = (if is_empty G eroded
                  then [ShapeTooThin (min_bridge_width constraints)] else []);
            w1 = (if \<not> is_empty G eroded \<and> area G eroded < area G polygon * 0.3
                  then [FragileZones] else []);
            w2 = (if area G polygon < 500 then [SmallArea (area G polygon)] else []);
            errs = e1 @ e2 @ e3 @ e4 @ e5;
            warns = w1 @ w2
        in \<lparr>vr_is_valid = (length errs = 0), errors = errs, warnings = warns\<rparr>)"

definition validate_ribbon_hole ::
  "'p shapely \<Rightarrow> 'p \<Rightarrow> point \<Rightarrow> TrotecConstraints \<Rightarrow> ValidationResult" where
  "validate_ribbon_hole G medal_polygon hole_center constraints =
     (let radius = ribbon_hole_diameter constraints / 2;
          hole = point_buffer G hole_center radius 16;
          e1 = (if \<not> contains G medal_polygon hole then [HoleOutside] else []);
          distance_to_edge = exterior_distance G medal_polygon hole_center;
          min_distance = radius + ribbon_hole_min_margin constraints;
          e2 = (if distance_to_edge < min_distance
                then [HoleTooClose distance_to_edge min_distance] else []);
          errs = e1 @ e2
      in \<lparr>vr_is_valid = (length errs = 0), errors = errs, warnings = []\<rparr>)"

definition validate_engraving_text :: "real \<Rightarrow> TrotecConstraints \<Rightarrow> ValidationResult" where
  "validate_engraving_text text_height constraints =
     (let errs = (if text_height < min_text_height constraints
                  then [TextTooSmall text_height (min_text_height constraints)] else []);
          warns = (if \<not> text_height < min_text_height constraints
                      \<and> text_height < min_text_height constraints * 1.5
                   then [TextSmall text_height] else [])
      in \<lparr>vr_is_valid = (length errs = 0), errors = errs, warnings = warns\<rparr>)"

subsection \<open>composer.py\<close>

datatype TextPosition = TOP | CENTER | BOTTOM | AROUND_TOP | AROUND_BOTTOM

record TextElement =
  content :: string
  text_position :: TextPosition
  font_size :: real
  font_family :: string
  bold :: bool
  text_offset_y :: real
  curved :: bool
  curve_radius :: "real option"

record MotifElement =
  motif_type :: MotifType
  params :: motif_params
  position :: point

record 'p MedalComposition =
  shape_type :: MedalShape
  comp_shape_params :: shape_params
  ribbon_hole :: bool
  comp_ribbon_hole_diameter :: real
  ribbon_hole_position :: "point option"
  motifs :: "MotifElement list"
  texts :: "TextElement list"
  name :: string
  event_type :: string
  shape_polygon :: "'p option"
  comp_validation_result :: "ValidationResult option"

text \<open>
  The dictionary built for one text. The keys \<^verbatim>\<open>x\<close>, \<^verbatim>\<open>y\<close> and \<^verbatim>\<open>anchor\<close> are set on every
  branch of the position test; \<^verbatim>\<open>curve_radius\<close> and \<^verbatim>\<open>start_angle\<close> only on the two arc
  branches.
\<close>

record text_dict =
  td_content :: string
  td_font_size :: real
  td_font_family :: string
  td_bold :: bool
  td_curved :: bool
  td_x :: real
  td_y :: real
  td_anchor :: string
  td_curve_radius :: "real option"
  td_start_angle :: "int option"

record 'p ComposedMedal =
  outline :: 'p
  ribbon_hole_center :: "point option"
  ribbon_hole_radius :: real
  motif_lines :: "polyline list"
  cm_texts :: "text_dict list"
  cm_name :: string
  cm_bounds :: "real \<times> real \<times> real \<times> real"
  cm_is_valid :: bool
  validation_result :: ValidationResult

text \<open>Python's \<^verbatim>\<open>r or d\<close> on an optional float: \<^verbatim>\<open>d\<close> when \<^verbatim>\<open>r\<close> is \<^verbatim>\<open>None\<close> or zero.\<close>

definition opt_float_or :: "real option \<Rightarrow> real \<Rightarrow> real" where
  "opt_float_or r d = (case r of None \<Rightarrow> d | Some x \<Rightarrow> float_or x d)"

text \<open>Step 4 of \<^verbatim>\<open>compose_medal\<close>: the loop over the motifs, with its accumulator.\<close>

fun compose_motifs :: "MotifElement list \<Rightarrow> polyline list \<Rightarrow> py_error + polyline list" where
  "compose_motifs [] all_motif_lines = Inr all_motif_lines"
| "compose_motifs (motif_elem # rest) all_motif_lines =
     (case get_motif (motif_type motif_elem) (Some (params motif_elem)) no_kwargs of
        Inl e \<Rightarrow> Inl e
      | Inr lines \<Rightarrow>
          (case position motif_elem of (ox, oy) \<Rightarrow>
             compose_motifs rest (all_motif_lines @ translate_lines ox oy lines)))"

text \<open>Step 5: the dictionary of one text, from the bounds of the outline.\<close>

definition position_text :: "real \<times> real \<times> real \<times> real \<Rightarrow> TextElement \<Rightarrow> text_dict" where
  "position_text bnds text_elem =
     (case bnds of (minx, miny, maxx, maxy) \<Rightarrow>
        let center_x = (minx + maxx) / 2;
            center_y = (miny + maxy) / 2;
            medal_width = maxx - minx;
            d = \<lparr>td_content = content text_elem, td_font_size = font_size text_elem,
                 td_font_family = font_family text_elem, td_bold = bold text_elem,
                 td_curved = curved text_elem, td_x = center_x, td_y = center_y,
                 td_anchor = ''middle'', td_curve_radius = None, td_start_angle = None\<rparr>
        in (case text_position text_elem of
             TOP \<Rightarrow> d\<lparr>td_y := maxy - 15 + text_offset_y text_elem\<rparr>
           | CENTER \<Rightarrow> d\<lparr>td_y := center_y + text_offset_y text_elem\<rparr>
           | BOTTOM \<Rightarrow> d\<lparr>td_y := miny + 10 + text_offset_y text_elem\<rparr>
           | AROUND_TOP \<Rightarrow>
               d\<lparr>td_curved := True,
                 td_curve_radius :=
                   Some (opt_float_or (curve_radius text_elem) (medal_width / 2 - 8)),
                 td_start_angle := Some 180\<rparr>
           | AROUND_BOTTOM \<Rightarrow>
               d\<lparr>td_curved := True,
                 td_curve_radius :=
                   Some (opt_float_or (curve_radius text_elem) (medal_width / 2 - 8)),
                 td_start_angle := Some 0\<rparr>))"

text \<open>The loop over the texts: it extends the three accumulators in order.\<close>

fun compose_texts ::
  "real \<times> real \<times> real \<times> real \<Rightarrow> TrotecConstraints \<Rightarrow> TextElement list \<Rightarrow>
   text_dict list \<times> message list \<times> message list \<Rightarrow>
   text_dict list \<times> message list \<times> message list" where
  "compose_texts bnds constraints [] acc = acc"
| "compose_texts bnds constraints (text_elem # rest) (positioned_texts, all_errors, all_warnings) =
     (let text_dict = position_text bnds text_elem;
          text_validation = validate_engraving_text (font_size text_elem) constraints
      in compose_texts bnds constraints rest
           (positioned_texts @ [text_dict],
            all_errors @ errors text_validation,
            all_warnings @ warnings text_validation))"

definition compose_medal ::
  "'p shapely \<Rightarrow> 'p MedalComposition \<Rightarrow> TrotecConstraints \<Rightarrow> py_error + 'p ComposedMedal"
where
  "compose_medal G composition constraints =
     (let outline = get_shape G (shape_type composition) (Some (comp_shape_params composition));
          bnds = bounds G outline;
          shape_validation = validate_medal_shape G outline constraints;
          all_errors1 = errors shape_validation;
          all_warnings1 = warnings shape_validation;
          ribbon_hole_radius = comp_ribbon_hole_diameter composition / 2;
          (ribbon_hole_center, all_errors2, all_warnings2) =
            (if ribbon_hole composition
             then let hole_pos = (case ribbon_hole_position composition of
                                    Some pos \<Rightarrow> pos
                                  | None \<Rightarrow> calculate_ribbon_hole_position G outline 8);
                      hole_validation = validate_ribbon_hole G outline hole_pos constraints
                  in (Some hole_pos,
                      all_errors1 @ errors hole_validation,
                      all_warnings1 @ warnings hole_validation)
             else (None, all_errors1, all_warnings1))
      in case compose_motifs (motifs composition) [] of
           Inl e \<Rightarrow> Inl e
         | Inr all_motif_lines \<Rightarrow>
             (case compose_texts bnds constraints (texts composition)
                     ([], all_errors2, all_warnings2) of
                (positioned_texts, all_errors, all_warnings) \<Rightarrow>
                  let is_valid = (length all_errors = 0);
                      final_validation =
                        \<lparr>vr_is_valid = is_valid, errors = all_errors,
                         warnings = all_warnings\<rparr>
                  in Inr \<lparr>outline = outline,
                          ribbon_hole_center = ribbon_hole_center,
                          ribbon_hole_radius = ribbon_hole_radius,
                          motif_lines = all_motif_lines,
                          cm_texts = positioned_texts,
                          cm_name = name composition,
                          cm_bounds = bnds,
                          cm_is_valid = is_valid,
                          validation_result = final_validation\<rparr>))"

text \<open>The preset \<^verbatim>\<open>create_trail_medal\<close> with its default arguments; \<open>TextElement_default\<close>
  holds the field defaults of \<^verbatim>\<open>TextElement\<close>.\<close>

definition TextElement_default :: TextElement where
  "TextElement_default =
     \<lparr>content = '''', text_position = CENTER, font_size = 8, font_family = ''Arial'',
      bold = False, text_offset_y = 0, curved = False, curve_radius = None\<rparr>"

definition create_trail_medal :: "'p MedalComposition" where
  "create_trail_medal =
     (let diameter = 70
      in \<lparr>shape_type = CIRCLE,
          comp_shape_params = ShapeParams diameter None 0 0,
          ribbon_hole = True,
          comp_ribbon_hole_diameter = 4,
          ribbon_hole_position = None,
          motifs =
            [\<lparr>motif_type = MOUNTAINS,
              params = MotifParams_default\<lparr>m_width := diameter * 0.7, m_height := diameter * 0.3\<rparr>,
              position = (0, -5)\<rparr>,
             \<lparr>motif_type = TREES,
              params = MotifParams_default\<lparr>m_width := diameter * 0.5, m_height := diameter * 0.2\<rparr>,
              position = (0, - diameter * 0.25)\<rparr>],
          texts =
            [TextElement_default\<lparr>content := ''TRAIL DES MONTAGNES'', text_position := AROUND_TOP,
               font_size := 5, bold := True\<rparr>,
             TextElement_default\<lparr>content := ''42K'', text_position := CENTER,
               font_size := 14, bold := True, text_offset_y := 5\<rparr>,
             TextElement_default\<lparr>content := ''2026'', text_position := AROUND_BOTTOM,
               font_size := 5\<rparr>],
          name = ''Trail des Montagnes 2026'',
          event_type = ''trail'',
          shape_polygon = None,
          comp_validation_result = None\<rparr>)"

subsection \<open>Rings and a reference instance of the library\<close>

text \<open>
  Modelled from the spec: the geometry primitives \<^verbatim>\<open>boundingBox(ring) -> (minX, minY, maxX,
  maxY)\<close> and \<^verbatim>\<open>area(ring)\<close> of section 4.1, on a ring given by its vertex list. The
  bounding box is the coordinate-wise minimum and maximum of the vertices; the area is the
  absolute value of the shoelace sum over the closed ring.
\<close>

definition ring_bounds :: "point list \<Rightarrow> real \<times> real \<times> real \<times> real" where
  "ring_bounds ps =
     (if ps = [] then (0, 0, 0, 0)
      else (Min (set (map fst ps)), Min (set (map snd ps)),
            Max (set (map fst ps)), Max (set (map snd ps))))"

definition shoelace :: "point list \<Rightarrow> real" where
  "shoelace ps = (\<Sum>((x1, y1), (x2, y2)) \<leftarrow> zip ps (rotate1 ps). x1 * y2 - x2 * y1)"

definition ring_area :: "point list \<Rightarrow> real" where
  "ring_area ps = \<bar>shoelace ps\<bar> / 2"

text \<open>The two sides of a bounding box and the larger of them, as
  \<^verbatim>\<open>validate_medal_shape\<close> computes them.\<close>

definition bbox_width :: "real \<times> real \<times> real \<times> real \<Rightarrow> real" where
  "bbox_width b = (case b of (minx, miny, maxx, maxy) \<Rightarrow> maxx - minx)"

definition bbox_height :: "real \<times> real \<times> real \<times> real \<Rightarrow> real" where
  "bbox_height b = (case b of (minx, miny, maxx, maxy) \<Rightarrow> maxy - miny)"

definition max_dim :: "real \<times> real \<times> real \<times> real \<Rightarrow> real" where
  "max_dim b = max (bbox_width b) (bbox_height b)"

text \<open>
  Modelled from the spec: rotation is a pure affine transform about the origin (section
  4.1); the angle is in degrees, counter-clockwise.
\<close>

definition rotate_point :: "real \<Rightarrow> point \<Rightarrow> point" where
  "rotate_point degrees p =
     (let a = degrees * pi / 180
      in (fst p * cos a - snd p * sin a, fst p * sin a + snd p * cos a))"

text \<open>
  A reference instance of the library, to evaluate the model at concrete inputs. A
  geometry is a ring of vertices, the disk that a buffered point approximates, or a
  rounded rectangle: an axis-aligned core rectangle grown by a radius with round corners.
  Bounding box, area, offsets, containment and boundary distance are exact on disks,
  axis-aligned rectangles and rounded rectangles, and bounding box and area are exact on
  every ring. A ring that is not an axis-aligned rectangle is treated as its bounding
  box when it is offset, when containment in it is tested and when the distance to its
  boundary is measured; the validity of a ring is its having three vertices and non-zero
  area; a rotated rounded rectangle is kept as the ring of its eight side ends; the
  coordinate list of a disk holds its four axis points and that of a rounded rectangle
  its eight side ends.
\<close>

datatype geom = Ring "point list" | Disk point real
  | Rounded "real \<times> real \<times> real \<times> real" real

definition box_points :: "real \<Rightarrow> real \<Rightarrow> real \<Rightarrow> real \<Rightarrow> point list" where
  "box_points minx miny maxx maxy = [(maxx, miny), (maxx, maxy), (minx, maxy), (minx, miny)]"

definition rounded_points :: "real \<times> real \<times> real \<times> real \<Rightarrow> real \<Rightarrow> point list" where
  "rounded_points b r =
     (case b of (minx, miny, maxx, maxy) \<Rightarrow>
        [(maxx + r, miny), (maxx + r, maxy), (maxx, maxy + r), (minx, maxy + r),
         (minx - r, maxy), (minx - r, miny), (minx, miny - r), (maxx, miny - r)])"

fun geom_bounds :: "geom \<Rightarrow> real \<times> real \<times> real \<times> real" where
  "geom_bounds (Ring ps) = ring_bounds ps"
| "geom_bounds (Disk c r) = (fst c - r, snd c - r, fst c + r, snd c + r)"
| "geom_bounds (Rounded b r) =
     (case b of (minx, miny, maxx, maxy) \<Rightarrow> (minx - r, miny - r, maxx + r, maxy + r))"

fun geom_area :: "geom \<Rightarrow> real" where
  "geom_area (Ring ps) = ring_area ps"
| "geom_area (Disk c r) = pi * r * r"
| "geom_area (Rounded b r) =
     (case b of (minx, miny, maxx, maxy) \<Rightarrow>
        (maxx - minx) * (maxy - miny) + 2 * r * ((maxx - minx) + (maxy - miny)) + pi * r * r)"

fun geom_is_empty :: "geom \<Rightarrow> bool" where
  "geom_is_empty (Ring ps) = (ps = [])"
| "geom_is_empty (Disk c r) = False"
| "geom_is_empty (Rounded b r) = False"

fun geom_is_valid :: "geom \<Rightarrow> bool" where
  "geom_is_valid (Ring ps) = (3 \<le> length ps \<and> 0 < ring_area ps)"
| "geom_is_valid (Disk c r) = (0 < r)"
| "geom_is_valid (Rounded b r) =
     (case b of (minx, miny, maxx, maxy) \<Rightarrow> minx \<le> maxx \<and> miny \<le> maxy \<and> 0 < r)"

fun geom_exterior_coords :: "geom \<Rightarrow> point list" where
  "geom_exterior_coords (Ring ps) = (if ps = [] then [] else ps @ [hd ps])"
| "geom_exterior_coords (Disk c r) =
     [(fst c + r, snd c), (fst c, snd c - r), (fst c - r, snd c), (fst c, snd c + r),
      (fst c + r, snd c)]"
| "geom_exterior_coords (Rounded b r) = rounded_points b r @ [hd (rounded_points b r)]"

definition geom_point_buffer :: "point \<Rightarrow> real \<Rightarrow> nat \<Rightarrow> geom" where
  "geom_point_buffer c r resolution = (if 0 < r then Disk c r else Ring [])"

text \<open>An axis-aligned rectangle offset by \<open>e\<close>: grown with round corners when \<open>e\<close> is
  positive, shrunk with sharp corners when it is negative, empty when nothing is left.\<close>

definition box_offset :: "real \<times> real \<times> real \<times> real \<Rightarrow> real \<Rightarrow> geom" where
  "box_offset b e =
     (case b of (minx, miny, maxx, maxy) \<Rightarrow>
        if 0 < e then Rounded b e
        else if minx - e < maxx + e \<and> miny - e < maxy + e
             then Ring (box_points (minx - e) (miny - e) (maxx + e) (maxy + e))
             else Ring [])"

fun geom_buffer :: "geom \<Rightarrow> real \<Rightarrow> geom" where
  "geom_buffer (Disk c r) e = geom_point_buffer c (r + e) 16"
| "geom_buffer (Ring ps) e =
     (if ps = [] then Ring []
      else if e = 0 then Ring ps
      else box_offset (ring_bounds ps) e)"
| "geom_buffer (Rounded b r) e =
     (if 0 < r + e then Rounded b (r + e) else box_offset b (r + e))"

fun geom_rotate :: "geom \<Rightarrow> real \<Rightarrow> geom" where
  "geom_rotate (Ring ps) degrees = Ring (map (rotate_point degrees) ps)"
| "geom_rotate (Disk c r) degrees = Disk (rotate_point degrees c) r"
| "geom_rotate (Rounded b r) degrees = Ring (map (rotate_point degrees) (rounded_points b r))"

definition dist2 :: "point \<Rightarrow> point \<Rightarrow> real" where
  "dist2 p q = (fst p - fst q) * (fst p - fst q) + (snd p - snd q) * (snd p - snd q)"

text \<open>The signed distance of a point to the boundary of an axis-aligned rectangle, of a
  geometry: negative inside, positive outside.\<close>

definition box_signed_distance :: "real \<times> real \<times> real \<times> real \<Rightarrow> point \<Rightarrow> real" where
  "box_signed_distance b p =
     (case b of (minx, miny, maxx, maxy) \<Rightarrow>
        let dx = max (minx - fst p) (fst p - maxx);
            dy = max (miny - snd p) (snd p - maxy)
        in if dx \<le> 0 \<and> dy \<le> 0 then max dx dy
           else sqrt (max dx 0 * max dx 0 + max dy 0 * max dy 0))"

fun geom_signed_distance :: "geom \<Rightarrow> point \<Rightarrow> real" where
  "geom_signed_distance (Ring ps) p = box_signed_distance (ring_bounds ps) p"
| "geom_signed_distance (Disk c r) p = sqrt (dist2 c p) - r"
| "geom_signed_distance (Rounded b r) p = box_signed_distance b p - r"

text \<open>Every geometry is a set of core points grown by a radius: it lies within another
  geometry when each core point is at least that radius inside.\<close>

fun geom_core :: "geom \<Rightarrow> point list" where
  "geom_core (Ring ps) = ps"
| "geom_core (Disk c r) = [c]"
| "geom_core (Rounded b r) =
     (case b of (minx, miny, maxx, maxy) \<Rightarrow> box_points minx miny maxx maxy)"

fun geom_radius :: "geom \<Rightarrow> real" where
  "geom_radius (Ring ps) = 0"
| "geom_radius (Disk c r) = r"
| "geom_radius (Rounded b r) = r"

definition geom_contains :: "geom \<Rightarrow> geom \<Rightarrow> bool" where
  "geom_contains outer g =
     (\<not> geom_is_empty outer \<and> \<not> geom_is_empty g
      \<and> list_all (\<lambda>q. geom_signed_distance outer q + geom_radius g \<le> 0) (geom_core g))"

definition geom_exterior_distance :: "geom \<Rightarrow> point \<Rightarrow> real" where
  "geom_exterior_distance g p = \<bar>geom_signed_distance g p\<bar>"

definition reference_geometry :: "geom shapely" where
  "reference_geometry =
     \<lparr>Polygon = Ring,
      box = (\<lambda>minx miny maxx maxy. Ring (box_points minx miny maxx maxy)),
      point_buffer = geom_point_buffer,
      buffer = geom_buffer,
      rotate_origin = geom_rotate,
      bounds = geom_bounds,
      area = geom_area,
      is_valid = geom_is_valid,
      is_empty = geom_is_empty,
      explain_validity = (\<lambda>g. ''Too few points or zero area''),
      contains = geom_contains,
      exterior_distance = geom_exterior_distance,
      exterior_coords = geom_exterior_coords\<rparr>"

subsection \<open>Notions used in the statements\<close>

text \<open>
  The error list that the composer is claimed to aggregate: the errors of the outline
  check, then those of the ribbon-hole check (when a hole is requested, at the explicit
  position or else at the automatic one), then those of the text check of every text.
\<close>

definition concatenated_errors ::
  "'p shapely \<Rightarrow> 'p MedalComposition \<Rightarrow> TrotecConstraints \<Rightarrow> message list" where
  "concatenated_errors G mc c =
     (let outline = get_shape G (shape_type mc) (Some (comp_shape_params mc))
      in errors (validate_medal_shape G outline c)
         @ (if ribbon_hole mc
            then errors (validate_ribbon_hole G outline
                   (case ribbon_hole_position mc of
                      Some pos \<Rightarrow> pos
                    | None \<Rightarrow> calculate_ribbon_hole_position G outline 8) c)
            else [])
         @ concat (map (\<lambda>t. errors (validate_engraving_text (font_size t) c)) (texts mc)))"

text \<open>
  The motif elements on which a generator raises: a finish-line motif whose square size
  \<^verbatim>\<open>width / 6\<close> is zero as a float (a zero width, or one so small that the quotient
  underflows), or whose row quotient \<^verbatim>\<open>height / square_size\<close> overflows.
\<close>

definition finish_line_raises :: "MotifElement \<Rightarrow> bool" where
  "finish_line_raises e =
     (motif_type e = FINISH_LINE
      \<and> (float_quot (m_width (params e)) 6 = 0
         \<or> double_overflow (m_height (params e) / float_quot (m_width (params e)) 6)))"

text \<open>A composition with a finish-line motif of width 0, and one with a finish-line motif
  of the default size 30 by 20; all else as in the trail preset.\<close>

definition zero_width_finish_line_medal :: "'p MedalComposition" where
  "zero_width_finish_line_medal =
     create_trail_medal
       \<lparr>motifs := [\<lparr>motif_type = FINISH_LINE,
                    params = MotifParams_default\<lparr>m_width := 0\<rparr>,
                    position = (0, 0)\<rparr>]\<rparr>"

definition finish_line_medal :: "'p MedalComposition" where
  "finish_line_medal =
     create_trail_medal
       \<lparr>motifs := [\<lparr>motif_type = FINISH_LINE,
                    params = MotifParams_default\<lparr>m_width := 30, m_height := 20\<rparr>,
                    position = (0, 0)\<rparr>]\<rparr>"

section \<open>Properties\<close>

subsection \<open>Auxiliary facts\<close>

lemma powr_powi: "(2::real) powr real_of_int k = 2 powi k"
  by (rule powr_real_of_int') simp_all

lemma binade_eq:
  assumes "2 powi k \<le> \<bar>x\<bar>" and "\<bar>x\<bar> < 2 powi (k + 1)"
  shows "binade x = k"
proof -
  have pos: "0 < \<bar>x\<bar>" using assms(1) by (smt (verit) zero_less_power_int)
  have "2 powr real_of_int k \<le> \<bar>x\<bar>" "\<bar>x\<bar> < 2 powr real_of_int (k + 1)"
    using assms unfolding powr_powi by simp_all
  then have "\<lfloor>log 2 \<bar>x\<bar>\<rfloor> = k"
    using floor_log_eq_powr_iff [of "\<bar>x\<bar>" 2 k] pos by simp
  then show ?thesis by (simp add: binade_def)
qed

lemma binade_less:
  assumes "x \<noteq> 0" and "\<bar>x\<bar> < 2 powi k"
  shows "binade x < k"
proof -
  have "\<bar>x\<bar> < 2 powr real_of_int k" using assms(2) unfolding powr_powi .
  then have "log 2 \<bar>x\<bar> < real_of_int k"
    using assms(1) by (subst log_less_iff) simp_all
  then show ?thesis unfolding binade_def by (simp add: floor_less_iff)
qed

lemma round_half_even_int [simp]: "round_half_even (of_int m) = m"
  by (simp add: round_half_even_def)

lemma double_round_zero [simp]: "double_round 0 = 0"
  by (simp add: double_round_def)

lemma double_round_normal:
  assumes "2 powi k \<le> \<bar>x\<bar>" and "\<bar>x\<bar> < 2 powi (k + 1)" and "- 1022 \<le> k"
  shows "double_round x = of_int (round_half_even (x / 2 powi (k - 52))) * 2 powi (k - 52)"
proof -
  have b: "binade x = k" using assms(1,2) by (rule binade_eq)
  have nz: "x \<noteq> 0" using assms(1) by (smt (verit) abs_zero zero_less_power_int)
  have e: "max (binade x) (- 1022) - 52 = k - 52" using b assms(3) by simp
  show ?thesis using nz e by (simp add: double_round_def Let_def)
qed

lemma double_round_exact:
  assumes "2 powi k \<le> \<bar>x\<bar>" and "\<bar>x\<bar> < 2 powi (k + 1)" and "- 1022 \<le> k"
    and "x / 2 powi (k - 52) = of_int m"
  shows "double_round x = x"
proof -
  have "double_round x = of_int (round_half_even (x / 2 powi (k - 52))) * 2 powi (k - 52)"
    using assms(1-3) by (rule double_round_normal)
  also have "\<dots> = x / 2 powi (k - 52) * 2 powi (k - 52)"
    by (simp add: assms(4))
  also have "\<dots> = x" by simp
  finally show ?thesis .
qed

lemma double_round_5: "double_round 5 = 5"
  by (rule double_round_exact [where k = 2 and m = "5 * 2 ^ 50"]) (simp_all add: power_int_minus)

lemma double_round_4: "double_round 4 = 4"
  by (rule double_round_exact [where k = 2 and m = "4 * 2 ^ 50"]) (simp_all add: power_int_minus)

lemma double_round_subnormal:
  assumes "x \<noteq> 0" and "\<bar>x\<bar> < 2 powi (- 1022)"
  shows "double_round x = of_int (round_half_even (x / 2 powi (- 1074))) * 2 powi (- 1074)"
proof -
  have "binade x < - 1022" using assms by (rule binade_less)
  then have "max (binade x) (- 1022) - 52 = - 1074" by simp
  then show ?thesis using assms(1) by (simp add: double_round_def Let_def)
qed

lemma float_quot_tiny: "float_quot (2 powi (- 1073)) 6 = 0"
proof -
  have "double_round (2 powi (- 1073) / 6)
        = of_int (round_half_even (2 powi (- 1073) / 6 / 2 powi (- 1074))) * 2 powi (- 1074)"
    by (rule double_round_subnormal) (simp_all add: power_int_minus field_simps)
  moreover have "(2::real) powi (- 1073) / 6 / 2 powi (- 1074) = 1 / 3"
    by (simp add: power_int_minus field_simps)
  moreover have "round_half_even (1 / 3) = 0"
    by (simp add: round_half_even_def Let_def)
  ultimately show ?thesis by (simp add: float_quot_def)
qed


lemma create_finish_line_zero_division:
  "float_quot w 6 = 0 \<Longrightarrow> create_finish_line w h = Inl ZeroDivisionError"
  by (simp add: create_finish_line_def float_div_def)

lemma create_finish_line_overflow:
  "float_quot w 6 \<noteq> 0 \<Longrightarrow> double_overflow (h / float_quot w 6)
   \<Longrightarrow> create_finish_line w h = Inl OverflowError"
  by (simp add: create_finish_line_def float_div_def py_int_def)

lemma create_finish_line_returns:
  "float_quot w 6 \<noteq> 0 \<Longrightarrow> \<not> double_overflow (h / float_quot w 6)
   \<Longrightarrow> \<exists>ls. create_finish_line w h = Inr ls"
  by (simp add: create_finish_line_def float_div_def py_int_def Let_def)

lemma create_finish_line_error:
  "(\<exists>e. create_finish_line w h = Inl e)
   \<longleftrightarrow> float_quot w 6 = 0 \<or> double_overflow (h / float_quot w 6)"
proof (cases "float_quot w 6 = 0")
  case True
  then show ?thesis by (simp add: create_finish_line_zero_division)
next
  case nz: False
  show ?thesis
  proof (cases "double_overflow (h / float_quot w 6)")
    case True
    with nz show ?thesis by (simp add: create_finish_line_overflow)
  next
    case False
    from create_finish_line_returns [OF nz False] obtain ls
      where "create_finish_line w h = Inr ls" by blast
    with nz False show ?thesis by simp
  qed
qed

lemma float_quot_28_6: "float_quot 28 6 = 5254199565265579 / 2 ^ 50"
proof -
  have "double_round (28 / 6)
        = of_int (round_half_even (28 / 6 / 2 powi (2 - 52))) * 2 powi (2 - 52)"
    by (rule double_round_normal) simp_all
  moreover have "round_half_even (28 / 6 / 2 powi (2 - 52)) = 5254199565265579"
    by (simp add: round_half_even_def Let_def power_int_minus)
  ultimately show ?thesis
    by (simp add: float_quot_def power_int_minus)
qed

lemma finish_line_28_70_rows:
  "float_div 70 (float_quot 28 6) = Inr (Finite (8444249301319679 / 2 ^ 49))"
  "py_int (Finite (8444249301319679 / 2 ^ 49)) = Inr 14"
proof -
  let ?q = "70 / (5254199565265579 / 2 ^ 50) :: real"
  have "double_round ?q = of_int (round_half_even (?q / 2 powi (3 - 52))) * 2 powi (3 - 52)"
    by (rule double_round_normal) simp_all
  moreover have "round_half_even (?q / 2 powi (3 - 52)) = 8444249301319679"
    by (simp add: round_half_even_def Let_def power_int_minus)
  ultimately have d: "double_round ?q = 8444249301319679 / 2 ^ 49"
    by (simp add: power_int_minus)
  show "float_div 70 (float_quot 28 6) = Inr (Finite (8444249301319679 / 2 ^ 49))"
    unfolding float_quot_28_6 float_div_def double_overflow_def d by simp
  show "py_int (Finite (8444249301319679 / 2 ^ 49)) = Inr 14"
    by (simp add: py_int_def)
qed

lemma get_motif_error:
  "(\<exists>e. get_motif t (Some p) kw = Inl e)
   \<longleftrightarrow> t = FINISH_LINE
       \<and> (float_quot (m_width p) 6 = 0 \<or> double_overflow (m_height p / float_quot (m_width p) 6))"
proof (cases "t = FINISH_LINE")
  case True
  show ?thesis
  proof (cases "\<exists>e. create_finish_line (m_width p) (m_height p) = Inl e")
    case e: True
    then obtain err where "create_finish_line (m_width p) (m_height p) = Inl err" by blast
    with True have "get_motif t (Some p) kw = Inl err" by (simp add: get_motif_def)
    with e True show ?thesis by (auto simp: create_finish_line_error)
  next
    case ne: False
    then obtain ls where "create_finish_line (m_width p) (m_height p) = Inr ls"
      by (cases "create_finish_line (m_width p) (m_height p)") auto
    with True have "\<exists>r. get_motif t (Some p) kw = Inr r" by (simp add: get_motif_def Let_def)
    with ne True show ?thesis by (auto simp: create_finish_line_error)
  qed
next
  case False
  then show ?thesis by (cases t) (simp_all add: get_motif_def Let_def)
qed

lemma get_motif_total:
  "\<not> finish_line_raises \<lparr>motif_type = t, params = p, position = pos\<rparr>
   \<Longrightarrow> \<exists>ls. get_motif t (Some p) kw = Inr ls"
  using get_motif_error [of t p kw]
  by (cases "get_motif t (Some p) kw") (auto simp: finish_line_raises_def)

lemma compose_motifs_ok:
  "map (\<lambda>e. get_motif (motif_type e) (Some (params e)) no_kwargs) es = map Inr gens
   \<Longrightarrow> compose_motifs es acc
       = Inr (acc @ concat (map2 (\<lambda>e ls. translate_lines (fst (position e)) (snd (position e)) ls)
                              es gens))"
proof (induction es arbitrary: acc gens)
  case Nil
  then show ?case by simp
next
  case (Cons e es)
  then obtain g gs where gens: "gens = g # gs" by (cases gens) auto
  with Cons.prems have hd: "get_motif (motif_type e) (Some (params e)) no_kwargs = Inr g"
    and tl: "map (\<lambda>e. get_motif (motif_type e) (Some (params e)) no_kwargs) es = map Inr gs"
    by auto
  show ?case
    using Cons.IH [OF tl] hd gens by (simp add: case_prod_beta)
qed

lemma compose_motifs_fail:
  "e \<in> set es \<Longrightarrow> finish_line_raises e \<Longrightarrow> \<exists>err. compose_motifs es acc = Inl err"
proof (induction es arbitrary: acc)
  case Nil
  then show ?case by simp
next
  case (Cons a es)
  show ?case
  proof (cases "get_motif (motif_type a) (Some (params a)) no_kwargs")
    case (Inl err)
    then show ?thesis by simp
  next
    case (Inr ls)
    have "e \<noteq> a"
    proof
      assume "e = a"
      with Cons.prems(2) have "\<exists>err. get_motif (motif_type a) (Some (params a)) no_kwargs = Inl err"
        by (simp add: get_motif_error finish_line_raises_def)
      with Inr show False by simp
    qed
    with Cons.prems(1) have "e \<in> set es" by simp
    from Cons.IH [OF this Cons.prems(2)] Inr show ?thesis by (simp add: case_prod_beta)
  qed
qed

lemma compose_medal_raises_on:
  assumes "e \<in> set (motifs mc)" and "finish_line_raises e"
  shows "\<exists>err. compose_medal G mc c = Inl err"
proof -
  from assms obtain err where "compose_motifs (motifs mc) [] = Inl err"
    using compose_motifs_fail by blast
  then show ?thesis
    by (simp add: compose_medal_def Let_def split: prod.splits)
qed

lemma motifs_gens:
  "list_all (\<lambda>e. \<not> finish_line_raises e) es
   \<Longrightarrow> \<exists>gens. map (\<lambda>e. get_motif (motif_type e) (Some (params e)) no_kwargs) es = map Inr gens"
proof (induction es)
  case Nil
  then show ?case by simp
next
  case (Cons a es)
  then obtain gens where g: "map (\<lambda>e. get_motif (motif_type e) (Some (params e)) no_kwargs) es = map Inr gens"
    by auto
  from Cons.prems have "\<not> finish_line_raises a" by simp
  then have "\<not> finish_line_raises \<lparr>motif_type = motif_type a, params = params a, position = position a\<rparr>"
    by (simp add: finish_line_raises_def)
  from get_motif_total [OF this] obtain ls
    where "get_motif (motif_type a) (Some (params a)) no_kwargs = Inr ls" by blast
  with g have "map (\<lambda>e. get_motif (motif_type e) (Some (params e)) no_kwargs) (a # es) = map Inr (ls # gens)"
    by simp
  then show ?case by blast
qed

lemma motifs_compose:
  assumes "list_all (\<lambda>e. \<not> finish_line_raises e) (motifs mc)"
  shows "\<exists>ml. compose_motifs (motifs mc) [] = Inr ml"
proof -
  from motifs_gens [OF assms] obtain gens
    where "map (\<lambda>e. get_motif (motif_type e) (Some (params e)) no_kwargs) (motifs mc) = map Inr gens"
    by blast
  from compose_motifs_ok [OF this, of "[]"] show ?thesis by blast
qed

lemma compose_texts_eq:
  "compose_texts b c ts (pt, er, wa)
   = (pt @ map (position_text b) ts,
      er @ concat (map (\<lambda>t. errors (validate_engraving_text (font_size t) c)) ts),
      wa @ concat (map (\<lambda>t. warnings (validate_engraving_text (font_size t) c)) ts))"
  by (induction ts arbitrary: pt er wa) (simp_all add: Let_def)

lemma compose_medal_Inr:
  assumes "compose_motifs (motifs mc) [] = Inr ml"
  shows "\<exists>m. compose_medal G mc c = Inr m
           \<and> outline m = get_shape G (shape_type mc) (Some (comp_shape_params mc))
           \<and> cm_bounds m = bounds G (outline m)
           \<and> motif_lines m = ml
           \<and> ribbon_hole_radius m = comp_ribbon_hole_diameter mc / 2
           \<and> ribbon_hole_center m =
               (if ribbon_hole mc
                then Some (case ribbon_hole_position mc of
                             Some pos \<Rightarrow> pos
                           | None \<Rightarrow> calculate_ribbon_hole_position G (outline m) 8)
                else None)
           \<and> errors (validation_result m) = concatenated_errors G mc c
           \<and> vr_is_valid (validation_result m) = (concatenated_errors G mc c = [])
           \<and> cm_is_valid m = (concatenated_errors G mc c = [])
           \<and> cm_texts m = map (position_text (bounds G (outline m))) (texts mc)
           \<and> cm_name m = name mc"
  using assms
  by (simp add: compose_medal_def concatenated_errors_def Let_def compose_texts_eq
        split: prod.splits option.splits)

lemma sqrt_729: "sqrt 729 = 27"
  by (rule real_sqrt_unique) simp_all

lemma reference_geometry_sel:
  "Polygon reference_geometry = Ring"
  "box reference_geometry = (\<lambda>minx miny maxx maxy. Ring (box_points minx miny maxx maxy))"
  "point_buffer reference_geometry = geom_point_buffer"
  "buffer reference_geometry = geom_buffer"
  "rotate_origin reference_geometry = geom_rotate"
  "bounds reference_geometry = geom_bounds"
  "area reference_geometry = geom_area"
  "is_valid reference_geometry = geom_is_valid"
  "is_empty reference_geometry = geom_is_empty"
  "contains reference_geometry = geom_contains"
  "exterior_distance reference_geometry = geom_exterior_distance"
  "exterior_coords reference_geometry = geom_exterior_coords"
  by (simp_all add: reference_geometry_def)

lemmas geom_metric_defs =
  geom_point_buffer_def geom_contains_def geom_exterior_distance_def dist2_def
  box_signed_distance_def box_offset_def box_points_def

lemma trail_outline:
  "get_shape reference_geometry CIRCLE (Some (ShapeParams 70 None 0 0)) = Disk (0, 0) 35"
  by (simp add: get_shape_def ShapeParams_def create_circle_def reference_geometry_sel
        geom_point_buffer_def)

lemma trail_errors:
  "concatenated_errors reference_geometry (create_trail_medal\<lparr>motifs := ms\<rparr>) DEFAULT_CONSTRAINTS
   = []"
  by (simp add: concatenated_errors_def create_trail_medal_def trail_outline Let_def
        validate_medal_shape_def validate_ribbon_hole_def validate_engraving_text_def
        calculate_ribbon_hole_position_def TextElement_default_def
        DEFAULT_CONSTRAINTS_def reference_geometry_sel geom_metric_defs sqrt_729)

lemma trail_gens:
  "map (\<lambda>e. get_motif (motif_type e) (Some (params e)) no_kwargs)
     (motifs (create_trail_medal :: geom MedalComposition))
   = map Inr [create_mountains 49 21, create_trees 35 14]"
  by (simp add: create_trail_medal_def get_motif_def MotifParams_default_def)

lemma sqrt_1225: "sqrt 1225 = 35"
  by (rule real_sqrt_unique) simp_all



















subsection \<open>The outline check\<close>

text \<open>
  C3. With the default constraints profile, \<^verbatim>\<open>validate_medal_shape\<close> on a circular ring of
  diameter 80 mm is valid with no error, and on a circular ring of diameter 30 mm
  returns exactly one error, the minimum-size violation. The circular ring of diameter
  \<open>d\<close> enters through what the library answers on it: it is valid, its bounding box is
  the square of side \<open>d\<close> around its center, and eroding it by 1 mm (half the default
  bridge width) leaves it non-empty. More generally there is no error for any diameter
  from 40 to 120 mm and exactly the minimum-size error below 40 mm.
\<close>

theorem validate_medal_shape_circle:
  assumes "is_valid G p"
    and "\<not> is_empty G (buffer G p (- 1))"
    and "bounds G p = (cx - d / 2, cy - d / 2, cx + d / 2, cy + d / 2)"
  shows "(d = 80 \<longrightarrow> errors (validate_medal_shape G p DEFAULT_CONSTRAINTS) = []
                    \<and> vr_is_valid (validate_medal_shape G p DEFAULT_CONSTRAINTS))
       \<and> (d = 30 \<longrightarrow> errors (validate_medal_shape G p DEFAULT_CONSTRAINTS) = [MedalTooSmall 30 40]
                    \<and> \<not> vr_is_valid (validate_medal_shape G p DEFAULT_CONSTRAINTS))
       \<and> (40 \<le> d \<and> d \<le> 120 \<longrightarrow> errors (validate_medal_shape G p DEFAULT_CONSTRAINTS) = [])
       \<and> (d < 40 \<longrightarrow> errors (validate_medal_shape G p DEFAULT_CONSTRAINTS) = [MedalTooSmall d 40])"
  using assms
  by (simp add: validate_medal_shape_def DEFAULT_CONSTRAINTS_def Let_def)

theorem validate_medal_shape_circle_witness:
  "is_valid reference_geometry (point_buffer reference_geometry (0, 0) 40 16)
   \<and> \<not> is_empty reference_geometry
         (buffer reference_geometry (point_buffer reference_geometry (0, 0) 40 16) (- 1))
   \<and> bounds reference_geometry (point_buffer reference_geometry (0, 0) 40 16)
       = (0 - 80 / 2, 0 - 80 / 2, 0 + 80 / 2, 0 + 80 / 2)
   \<and> errors (validate_medal_shape reference_geometry
               (point_buffer reference_geometry (0, 0) 40 16) DEFAULT_CONSTRAINTS) = []
   \<and> is_valid reference_geometry (point_buffer reference_geometry (0, 0) 15 16)
   \<and> \<not> is_empty reference_geometry
         (buffer reference_geometry (point_buffer reference_geometry (0, 0) 15 16) (- 1))
   \<and> bounds reference_geometry (point_buffer reference_geometry (0, 0) 15 16)
       = (0 - 30 / 2, 0 - 30 / 2, 0 + 30 / 2, 0 + 30 / 2)
   \<and> errors (validate_medal_shape reference_geometry
               (point_buffer reference_geometry (0, 0) 15 16) DEFAULT_CONSTRAINTS)
       = [MedalTooSmall 30 40]"
proof -
  let ?p80 = "point_buffer reference_geometry (0, 0) 40 16"
  let ?p30 = "point_buffer reference_geometry (0, 0) 15 16"
  have a: "is_valid reference_geometry ?p80"
    and b: "\<not> is_empty reference_geometry (buffer reference_geometry ?p80 (- 1))"
    and c: "bounds reference_geometry ?p80 = (0 - 80 / 2, 0 - 80 / 2, 0 + 80 / 2, 0 + 80 / 2)"
    by (simp_all add: reference_geometry_sel geom_metric_defs)
  have a': "is_valid reference_geometry ?p30"
    and b': "\<not> is_empty reference_geometry (buffer reference_geometry ?p30 (- 1))"
    and c': "bounds reference_geometry ?p30 = (0 - 30 / 2, 0 - 30 / 2, 0 + 30 / 2, 0 + 30 / 2)"
    by (simp_all add: reference_geometry_sel geom_metric_defs)
  from validate_medal_shape_circle [OF a b c] validate_medal_shape_circle [OF a' b' c'] a b c a' b' c'
  show ?thesis by simp
qed

subsection \<open>The ribbon-hole check\<close>

text \<open>
  C4. \<^verbatim>\<open>validate_ribbon_hole\<close> reports the hole as outside exactly when the outline does
  not contain the disk of the configured hole radius around the center, and as too close
  exactly when the distance from the center to the outline's boundary is less than the
  hole radius plus \<^verbatim>\<open>ribbon_hole_min_margin\<close>; these are its only errors. For a center
  5 mm from the boundary of an outline that contains the hole, with the default margin
  5.0 and hole diameter 4.0, it returns exactly one error (5 < 7).
\<close>

theorem validate_ribbon_hole_spec:
  "(HoleOutside \<in> set (errors (validate_ribbon_hole G p ctr c))
      \<longleftrightarrow> \<not> contains G p (point_buffer G ctr (ribbon_hole_diameter c / 2) 16))
   \<and> ((\<exists>dist lim. HoleTooClose dist lim \<in> set (errors (validate_ribbon_hole G p ctr c)))
      \<longleftrightarrow> exterior_distance G p ctr < ribbon_hole_diameter c / 2 + ribbon_hole_min_margin c)
   \<and> errors (validate_ribbon_hole G p ctr c)
       = (if \<not> contains G p (point_buffer G ctr (ribbon_hole_diameter c / 2) 16)
          then [HoleOutside] else [])
         @ (if exterior_distance G p ctr < ribbon_hole_diameter c / 2 + ribbon_hole_min_margin c
            then [HoleTooClose (exterior_distance G p ctr)
                    (ribbon_hole_diameter c / 2 + ribbon_hole_min_margin c)]
            else [])
   \<and> vr_is_valid (validate_ribbon_hole G p ctr c) = (errors (validate_ribbon_hole G p ctr c) = [])
   \<and> (contains G p (point_buffer G ctr 2 16) \<and> exterior_distance G p ctr = 5
        \<longrightarrow> errors (validate_ribbon_hole G p ctr DEFAULT_CONSTRAINTS) = [HoleTooClose 5 7])"
  by (auto simp: validate_ribbon_hole_def DEFAULT_CONSTRAINTS_def Let_def)

theorem validate_ribbon_hole_spec_witness:
  "contains reference_geometry (point_buffer reference_geometry (0, 0) 40 16)
     (point_buffer reference_geometry (0, 35) 2 16)
   \<and> exterior_distance reference_geometry (point_buffer reference_geometry (0, 0) 40 16) (0, 35) = 5
   \<and> errors (validate_ribbon_hole reference_geometry
               (point_buffer reference_geometry (0, 0) 40 16) (0, 35) DEFAULT_CONSTRAINTS)
       = [HoleTooClose 5 7]"
proof -
  let ?medal = "point_buffer reference_geometry (0, 0) 40 16"
  have a: "contains reference_geometry ?medal (point_buffer reference_geometry (0, 35) 2 16)"
    by (simp add: reference_geometry_sel geom_metric_defs sqrt_1225)
  have b: "exterior_distance reference_geometry ?medal (0, 35) = 5"
    by (simp add: reference_geometry_sel geom_metric_defs sqrt_1225)
  from validate_ribbon_hole_spec [of reference_geometry ?medal "(0, 35)" DEFAULT_CONSTRAINTS] a b
  show ?thesis by blast
qed

subsection \<open>The text check\<close>

text \<open>
  C5. For every text height \<open>h\<close> and constraints profile \<open>c\<close>, \<^verbatim>\<open>validate_engraving_text\<close>
  returns an error if and only if \<open>h < min_text_height c\<close>, and a warning if and only if
  \<open>min_text_height c \<le> h < 1.5 * min_text_height c\<close>; it returns at most one of each, and
  the result is valid exactly when it has no error. With the default minimum of 3.0 mm
  there is one error at height 2.0, no error and one warning at 4.0, and neither at 5.0.
\<close>

theorem validate_engraving_text_spec:
  "(errors (validate_engraving_text h c) \<noteq> [] \<longleftrightarrow> h < min_text_height c)
   \<and> (warnings (validate_engraving_text h c) \<noteq> []
        \<longleftrightarrow> min_text_height c \<le> h \<and> h < 1.5 * min_text_height c)
   \<and> errors (validate_engraving_text h c)
        = (if h < min_text_height c then [TextTooSmall h (min_text_height c)] else [])
   \<and> warnings (validate_engraving_text h c)
        = (if min_text_height c \<le> h \<and> h < 1.5 * min_text_height c then [TextSmall h] else [])
   \<and> vr_is_valid (validate_engraving_text h c) = (errors (validate_engraving_text h c) = [])
   \<and> length (errors (validate_engraving_text 2 DEFAULT_CONSTRAINTS)) = 1
   \<and> length (errors (validate_engraving_text 4 DEFAULT_CONSTRAINTS)) = 0
   \<and> length (warnings (validate_engraving_text 4 DEFAULT_CONSTRAINTS)) = 1
   \<and> length (errors (validate_engraving_text 5 DEFAULT_CONSTRAINTS)) = 0
   \<and> length (warnings (validate_engraving_text 5 DEFAULT_CONSTRAINTS)) = 0"
  by (auto simp: validate_engraving_text_def DEFAULT_CONSTRAINTS_def Let_def)

theorem validate_engraving_text_spec_witness:
  "errors (validate_engraving_text 2 DEFAULT_CONSTRAINTS) = [TextTooSmall 2 3]
   \<and> warnings (validate_engraving_text 4 DEFAULT_CONSTRAINTS) = [TextSmall 4]"
  using validate_engraving_text_spec [of 2 DEFAULT_CONSTRAINTS]
        validate_engraving_text_spec [of 4 DEFAULT_CONSTRAINTS]
  by (simp add: DEFAULT_CONSTRAINTS_def)

subsection \<open>The composer\<close>

text \<open>
  C2, as stated, fails: \<^verbatim>\<open>compose_medal\<close> does not complete on every composition. A
  finish-line motif of width 0 makes \<^verbatim>\<open>create_finish_line\<close> divide the height by a zero
  square size, and the \<^verbatim>\<open>ZeroDivisionError\<close> leaves \<^verbatim>\<open>compose_medal\<close>.
\<close>

theorem compose_medal_raises:
  "compose_medal reference_geometry zero_width_finish_line_medal DEFAULT_CONSTRAINTS
   = Inl ZeroDivisionError"
  by (simp add: compose_medal_def zero_width_finish_line_medal_def create_trail_medal_def
        MotifParams_default_def Let_def get_motif_def float_quot_def
        create_finish_line_zero_division split: prod.splits)

text \<open>
  C2, amended. For every constraints profile and every composition with finite numbers
  in which no finish-line motif raises (its square size \<^verbatim>\<open>width / 6\<close> is a non-zero float
  and its row quotient \<^verbatim>\<open>height / square_size\<close> does not overflow), \<^verbatim>\<open>compose_medal\<close>
  completes and returns a composed medal: failed checks are recorded, not raised. The
  errors of its validation result are the concatenated errors of the outline check, the
  ribbon-hole check and every text check, and both validity flags are true exactly when
  that list is empty; warnings do not enter.
\<close>

theorem compose_medal_completes:
  assumes "list_all (\<lambda>e. \<not> finish_line_raises e) (motifs mc)"
  shows "\<exists>m. compose_medal G mc c = Inr m
           \<and> errors (validation_result m) = concatenated_errors G mc c
           \<and> (vr_is_valid (validation_result m) \<longleftrightarrow> concatenated_errors G mc c = [])
           \<and> (cm_is_valid m \<longleftrightarrow> concatenated_errors G mc c = [])"
proof -
  from motifs_compose [OF assms] obtain ml
    where "compose_motifs (motifs mc) [] = Inr ml" by blast
  from compose_medal_Inr [OF this, of G c] show ?thesis by blast
qed

theorem compose_medal_completes_witness:
  "list_all (\<lambda>e. \<not> finish_line_raises e) (motifs (finish_line_medal :: geom MedalComposition))
   \<and> (\<exists>m. compose_medal reference_geometry finish_line_medal DEFAULT_CONSTRAINTS = Inr m
          \<and> errors (validation_result m) = []
          \<and> vr_is_valid (validation_result m) \<and> cm_is_valid m)"
proof -
  have h: "list_all (\<lambda>e. \<not> finish_line_raises e)
             (motifs (finish_line_medal :: geom MedalComposition))"
    by (simp add: finish_line_medal_def finish_line_raises_def MotifParams_default_def
          float_quot_def double_round_5 double_overflow_def double_round_4)
  from compose_medal_completes [OF h, of reference_geometry DEFAULT_CONSTRAINTS] h
  show ?thesis by (simp add: finish_line_medal_def trail_errors)
qed

text \<open>
  C6. For every composition that requests a ribbon hole without an explicit position (and
  on which \<^verbatim>\<open>compose_medal\<close> completes), the resolved hole center has the horizontal
  midpoint of the outline's bounding box as abscissa and the top edge of the box minus
  8 mm as ordinate, and the ribbon-hole check whose errors and warnings enter the result
  is the one run against that center.
\<close>

theorem auto_ribbon_hole_center:
  assumes "ribbon_hole mc" and "ribbon_hole_position mc = None"
    and "list_all (\<lambda>e. \<not> finish_line_raises e) (motifs mc)"
    and "bounds G (get_shape G (shape_type mc) (Some (comp_shape_params mc)))
           = (minx, miny, maxx, maxy)"
  shows "\<exists>m. compose_medal G mc c = Inr m
           \<and> ribbon_hole_center m = Some ((minx + maxx) / 2, maxy - 8)
           \<and> errors (validation_result m)
               = errors (validate_medal_shape G (outline m) c)
                 @ errors (validate_ribbon_hole G (outline m) ((minx + maxx) / 2, maxy - 8) c)
                 @ concat (map (\<lambda>t. errors (validate_engraving_text (font_size t) c)) (texts mc))
           \<and> warnings (validation_result m)
               = warnings (validate_medal_shape G (outline m) c)
                 @ warnings (validate_ribbon_hole G (outline m) ((minx + maxx) / 2, maxy - 8) c)
                 @ concat (map (\<lambda>t. warnings (validate_engraving_text (font_size t) c)) (texts mc))"
proof -
  from motifs_compose [OF assms(3)] obtain ml
    where ml: "compose_motifs (motifs mc) [] = Inr ml" by blast
  have pos: "calculate_ribbon_hole_position G
               (get_shape G (shape_type mc) (Some (comp_shape_params mc))) 8
             = ((minx + maxx) / 2, maxy - 8)"
    by (simp add: calculate_ribbon_hole_position_def assms(4))
  show ?thesis
    using ml assms(1,2) pos
    by (simp add: compose_medal_def Let_def compose_texts_eq split: prod.splits)
qed

theorem auto_ribbon_hole_center_witness:
  "ribbon_hole (create_trail_medal :: geom MedalComposition)
   \<and> ribbon_hole_position (create_trail_medal :: geom MedalComposition) = None
   \<and> list_all (\<lambda>e. \<not> finish_line_raises e) (motifs (create_trail_medal :: geom MedalComposition))
   \<and> bounds reference_geometry (get_shape reference_geometry
        (shape_type (create_trail_medal :: geom MedalComposition))
        (Some (comp_shape_params (create_trail_medal :: geom MedalComposition))))
      = (-35, -35, 35, 35)
   \<and> (\<exists>m. compose_medal reference_geometry create_trail_medal DEFAULT_CONSTRAINTS = Inr m
          \<and> ribbon_hole_center m = Some (0, 27))"
proof -
  let ?mc = "create_trail_medal :: geom MedalComposition"
  have h1: "ribbon_hole ?mc" and h2: "ribbon_hole_position ?mc = None"
    and h3: "list_all (\<lambda>e. \<not> finish_line_raises e) (motifs ?mc)"
    by (simp_all add: create_trail_medal_def finish_line_raises_def)
  have h4: "bounds reference_geometry (get_shape reference_geometry (shape_type ?mc)
              (Some (comp_shape_params ?mc))) = (-35, -35, 35, 35)"
    by (simp add: create_trail_medal_def trail_outline reference_geometry_sel)
  from auto_ribbon_hole_center [OF h1 h2 h3 h4, of DEFAULT_CONSTRAINTS] h1 h2 h3 h4
  show ?thesis by auto
qed

text \<open>
  C7. When \<^verbatim>\<open>get_motif\<close> produces the polyline lists \<open>gens\<close> for the motif elements of a
  composition, in order, the \<^verbatim>\<open>motif_lines\<close> of the composed medal are those lists, each
  translated pointwise by the placement offset of its element, concatenated in the order
  of declaration; their number is the sum of the numbers of polylines produced.
\<close>

theorem motif_lines_concatenation:
  assumes "map (\<lambda>e. get_motif (motif_type e) (Some (params e)) no_kwargs) (motifs mc)
             = map Inr gens"
  shows "\<exists>m. compose_medal G mc c = Inr m
           \<and> motif_lines m
               = concat (map2 (\<lambda>e ls. map (map (\<lambda>(x, y). (x + fst (position e), y + snd (position e)))) ls)
                           (motifs mc) gens)
           \<and> length (motif_lines m) = sum_list (map length gens)"
proof -
  from compose_motifs_ok [OF assms, of "[]"]
  have ml: "compose_motifs (motifs mc) []
              = Inr (concat (map2 (\<lambda>e ls. translate_lines (fst (position e)) (snd (position e)) ls)
                               (motifs mc) gens))"
    by simp
  from assms have len: "length (motifs mc) = length gens"
    by (metis length_map)
  have "length (concat (map2 (\<lambda>e ls. translate_lines (fst (position e)) (snd (position e)) ls)
                          es gens)) = sum_list (map length gens)"
    if "length es = length gens" for es :: "MotifElement list"
    using that by (induction es gens rule: list_induct2) (simp_all add: translate_lines_def)
  from this [OF len] compose_medal_Inr [OF ml, of G c]
  show ?thesis by (auto simp: translate_lines_def)
qed

theorem motif_lines_concatenation_witness:
  "map (\<lambda>e. get_motif (motif_type e) (Some (params e)) no_kwargs)
     (motifs (create_trail_medal :: geom MedalComposition))
   = map Inr [create_mountains 49 21, create_trees 35 14]
   \<and> (\<exists>m. compose_medal reference_geometry create_trail_medal DEFAULT_CONSTRAINTS = Inr m
          \<and> length (motif_lines m) = 7)"
proof -
  have "length (create_mountains 49 21) = 1" by (simp add: create_mountains_def)
  moreover have "length (create_trees 35 14) = 6"
    by (simp add: create_trees_def Let_def length_concat comp_def sum_list_triv)
  ultimately show ?thesis
    using motif_lines_concatenation [OF trail_gens, of reference_geometry DEFAULT_CONSTRAINTS]
      trail_gens by auto
qed

text \<open>
  C9. For every composition that requests a ribbon hole (and on which \<^verbatim>\<open>compose_medal\<close>
  completes), the returned \<^verbatim>\<open>ribbon_hole_radius\<close> is half the diameter declared by the
  composition, while the hole check builds its disk with half the diameter of the
  constraints profile: replacing the declared diameter by any \<open>d\<close> changes the returned
  radius to \<open>d / 2\<close> and leaves the validation result and the validity flag unchanged.
\<close>

theorem hole_diameter_not_validated:
  assumes "ribbon_hole mc"
    and "list_all (\<lambda>e. \<not> finish_line_raises e) (motifs mc)"
  shows "\<exists>m m'. compose_medal G mc c = Inr m
           \<and> compose_medal G (mc\<lparr>comp_ribbon_hole_diameter := d\<rparr>) c = Inr m'
           \<and> ribbon_hole_radius m = comp_ribbon_hole_diameter mc / 2
           \<and> ribbon_hole_radius m' = d / 2
           \<and> validation_result m' = validation_result m
           \<and> cm_is_valid m' = cm_is_valid m
           \<and> (\<exists>center. ribbon_hole_center m = Some center
                \<and> errors (validation_result m)
                    = errors (validate_medal_shape G (outline m) c)
                      @ ((if \<not> contains G (outline m)
                                 (point_buffer G center (ribbon_hole_diameter c / 2) 16)
                          then [HoleOutside] else [])
                         @ (if exterior_distance G (outline m) center
                                 < ribbon_hole_diameter c / 2 + ribbon_hole_min_margin c
                            then [HoleTooClose (exterior_distance G (outline m) center)
                                    (ribbon_hole_diameter c / 2 + ribbon_hole_min_margin c)]
                            else []))
                      @ concat (map (\<lambda>t. errors (validate_engraving_text (font_size t) c))
                                  (texts mc)))"
proof -
  from motifs_compose [OF assms(2)] obtain ml
    where ml: "compose_motifs (motifs mc) [] = Inr ml" by blast
  define ctr where "ctr = (case ribbon_hole_position mc of
                             Some pos \<Rightarrow> pos
                           | None \<Rightarrow> calculate_ribbon_hole_position G
                                       (get_shape G (shape_type mc) (Some (comp_shape_params mc))) 8)"
  define m where "m = projr (compose_medal G mc c)"
  define m' where "m' = projr (compose_medal G (mc\<lparr>comp_ribbon_hole_diameter := d\<rparr>) c)"
  have r: "compose_medal G mc c = Inr m"
    and r': "compose_medal G (mc\<lparr>comp_ribbon_hole_diameter := d\<rparr>) c = Inr m'"
    unfolding m_def m'_def using ml
    by (simp_all add: compose_medal_def Let_def compose_texts_eq split: prod.splits)
  have sel: "ribbon_hole_radius m = comp_ribbon_hole_diameter mc / 2"
    "ribbon_hole_radius m' = d / 2"
    "validation_result m' = validation_result m"
    "cm_is_valid m' = cm_is_valid m"
    "ribbon_hole_center m = Some ctr"
    unfolding m_def m'_def ctr_def using ml assms(1)
    by (simp_all add: compose_medal_def Let_def compose_texts_eq split: prod.splits)
  have err: "errors (validation_result m)
      = errors (validate_medal_shape G (outline m) c)
        @ ((if \<not> contains G (outline m) (point_buffer G ctr (ribbon_hole_diameter c / 2) 16)
            then [HoleOutside] else [])
           @ (if exterior_distance G (outline m) ctr
                   < ribbon_hole_diameter c / 2 + ribbon_hole_min_margin c
              then [HoleTooClose (exterior_distance G (outline m) ctr)
                      (ribbon_hole_diameter c / 2 + ribbon_hole_min_margin c)]
              else []))
        @ concat (map (\<lambda>t. errors (validate_engraving_text (font_size t) c)) (texts mc))"
    unfolding m_def ctr_def using ml assms(1)
    by (simp add: compose_medal_def Let_def compose_texts_eq validate_ribbon_hole_def
          split: prod.splits)
  from r r' sel err show ?thesis by blast
qed

theorem hole_diameter_not_validated_witness:
  "ribbon_hole (create_trail_medal :: geom MedalComposition)
   \<and> list_all (\<lambda>e. \<not> finish_line_raises e) (motifs (create_trail_medal :: geom MedalComposition))
   \<and> (\<exists>m m'. compose_medal reference_geometry create_trail_medal DEFAULT_CONSTRAINTS = Inr m
          \<and> compose_medal reference_geometry
               (create_trail_medal\<lparr>comp_ribbon_hole_diameter := 30\<rparr>) DEFAULT_CONSTRAINTS = Inr m'
          \<and> ribbon_hole_radius m = 2 \<and> ribbon_hole_radius m' = 15
          \<and> validation_result m' = validation_result m)"
proof -
  let ?mc = "create_trail_medal :: geom MedalComposition"
  have h1: "ribbon_hole ?mc"
    and h2: "list_all (\<lambda>e. \<not> finish_line_raises e) (motifs ?mc)"
    and d: "comp_ribbon_hole_diameter ?mc = 4"
    by (simp_all add: create_trail_medal_def finish_line_raises_def)
  from hole_diameter_not_validated [OF h1 h2, of reference_geometry DEFAULT_CONSTRAINTS 30] h1 h2 d
  show ?thesis by auto
qed

subsection \<open>The shape factory\<close>




text \<open>
  C10, as stated, fails: a sharp-cornered rectangle can be obtained. Only a corner radius
  of zero is replaced by the default; a negative one is passed on, the box is inset by
  it (so it grows) and the negative buffer shrinks it back with sharp corners. With
  width 70, height 50 and corner radius -5 the result is the sharp 70 by 50 rectangle.
\<close>

theorem negative_corner_radius_sharp:
  "get_shape reference_geometry RECTANGLE (Some (ShapeParams 70 (Some 50) 0 (- 5)))
   = Ring [(35, - 25), (35, 25), (- 35, 25), (- 35, - 25)]"
proof -
  have b: "ring_bounds (box_points (- 40) (- 30) 40 30) = (- 40, - 30, 40, 30)"
    by (simp add: ring_bounds_def box_points_def)
  have ne: "box_points (- 40) (- 30) 40 30 \<noteq> []"
    by (simp add: box_points_def)
  have "get_shape reference_geometry RECTANGLE (Some (ShapeParams 70 (Some 50) 0 (- 5)))
        = geom_buffer (Ring (box_points (- 40) (- 30) 40 30)) (- 5)"
    by (simp add: get_shape_def ShapeParams_def float_or_def create_rounded_rectangle_def
          reference_geometry_sel)
  also have "\<dots> = box_offset (- 40, - 30, 40, 30) (- 5)"
    using b ne by simp
  also have "\<dots> = Ring [(35, - 25), (35, 25), (- 35, 25), (- 35, - 25)]"
    by (simp add: box_offset_def box_points_def)
  finally show ?thesis .
qed

text \<open>
  C10, amended. For every \<^verbatim>\<open>ShapeParams\<close> with \<^verbatim>\<open>corner_radius = 0\<close>, \<^verbatim>\<open>get_shape\<close> builds
  the \<^verbatim>\<open>RECTANGLE\<close> variant as the box inset by 5 on every side, buffered by 5 with round
  joins (a rounded rectangle of corner radius 5), and the \<^verbatim>\<open>ROUNDED_RECTANGLE\<close> variant
  likewise with 8, rotated afterwards when a rotation is given. For every \<^verbatim>\<open>ShapeParams\<close>
  the inset and the buffer distance are the corner radius when it is not zero and the
  default otherwise: the distance is never zero, and it is positive, so that the corners
  are rounded, whenever the corner radius is not negative.
\<close>

theorem rectangle_corner_radius_default:
  "(corner_radius p = 0 \<longrightarrow>
      get_shape G RECTANGLE (Some p)
        = (let r = buffer G (box G (- width p / 2 + 5) (- height p / 2 + 5)
                                   (width p / 2 - 5) (height p / 2 - 5)) 5
           in if rotation p \<noteq> 0 then rotate_origin G r (rotation p) else r)
      \<and> get_shape G ROUNDED_RECTANGLE (Some p)
        = (let r = buffer G (box G (- width p / 2 + 8) (- height p / 2 + 8)
                                   (width p / 2 - 8) (height p / 2 - 8)) 8
           in if rotation p \<noteq> 0 then rotate_origin G r (rotation p) else r))
   \<and> (\<exists>cr. cr = (if corner_radius p = 0 then 5 else corner_radius p) \<and> cr \<noteq> 0
        \<and> (0 \<le> corner_radius p \<longrightarrow> 0 < cr)
        \<and> get_shape G RECTANGLE (Some p)
            = (let r = buffer G (box G (- width p / 2 + cr) (- height p / 2 + cr)
                                       (width p / 2 - cr) (height p / 2 - cr)) cr
               in if rotation p \<noteq> 0 then rotate_origin G r (rotation p) else r))
   \<and> (\<exists>cr. cr = (if corner_radius p = 0 then 8 else corner_radius p) \<and> cr \<noteq> 0
        \<and> (0 \<le> corner_radius p \<longrightarrow> 0 < cr)
        \<and> get_shape G ROUNDED_RECTANGLE (Some p)
            = (let r = buffer G (box G (- width p / 2 + cr) (- height p / 2 + cr)
                                       (width p / 2 - cr) (height p / 2 - cr)) cr
               in if rotation p \<noteq> 0 then rotate_origin G r (rotation p) else r))"
  by (auto simp: get_shape_def Let_def float_or_def create_rounded_rectangle_def)

theorem rectangle_corner_radius_default_witness:
  "corner_radius (ShapeParams 70 (Some 50) 0 0) = 0
   \<and> get_shape reference_geometry RECTANGLE (Some (ShapeParams 70 (Some 50) 0 0))
       = Rounded (- 30, - 20, 30, 20) 5
   \<and> get_shape reference_geometry ROUNDED_RECTANGLE (Some (ShapeParams 70 (Some 50) 0 0))
       = Rounded (- 27, - 17, 27, 17) 8"
proof -
  have b: "ring_bounds (box_points (- 30) (- 20) 30 20) = (- 30, - 20, 30, 20)"
    "ring_bounds (box_points (- 27) (- 17) 27 17) = (- 27, - 17, 27, 17)"
    by (simp_all add: ring_bounds_def box_points_def)
  have ne: "box_points (- 30) (- 20) 30 20 \<noteq> []" "box_points (- 27) (- 17) 27 17 \<noteq> []"
    by (simp_all add: box_points_def)
  show ?thesis
    using rectangle_corner_radius_default [of "ShapeParams 70 (Some 50) 0 0" reference_geometry]
    by (simp add: ShapeParams_def reference_geometry_sel b ne box_offset_def)
qed

end
